theory Spec2Isabelle
  imports Complex_Main "HOL-Library.Sublist" "HOL-Library.Word" "HOL-Library.Multiset"
begin

section \<open>Python strings\<close>

text \<open>
  A Python \<open>str\<close> is a sequence of code points. It is modelled as a \<open>string\<close>
  whose characters are read as the code points 0 to 255 (ASCII and the Latin-1
  supplement); the methods below are the ones \<^verbatim>\<open>lib/utils.py\<close> calls, with
  the behaviour Python documents for them.
\<close>

datatype py_error = ValueError | IndexError | OverflowError

text \<open>
  \<^verbatim>\<open>str.lower()\<close>. On code points below 256 the cased letters with a lowercase
  partner are \<open>A\<close> to \<open>Z\<close> (65 to 90) and the Latin-1 capitals 192 to 222
  without the multiplication sign 215; each moves up by 32.
\<close>

definition lower_char :: "char \<Rightarrow> char" where
  "lower_char c =
     (let n = (of_char c :: nat) in
      if (65 \<le> n \<and> n \<le> 90) \<or> (192 \<le> n \<and> n \<le> 222 \<and> n \<noteq> 215)
      then char_of (n + 32) else c)"

definition lower :: "string \<Rightarrow> string" where
  "lower s = map lower_char s"

text \<open>
  \<^verbatim>\<open>str.replace(old, new)\<close>: every non-overlapping occurrence of \<open>old\<close>, found
  from the left, is replaced by \<open>new\<close>. For the empty \<open>old\<close> Python inserts
  \<open>new\<close> before every character and at the end.
\<close>

function replace :: "string \<Rightarrow> string \<Rightarrow> string \<Rightarrow> string" where
  "replace s old new =
     (if old = [] then new @ concat (map (\<lambda>c. c # new) s)
      else if s = [] then []
      else if prefix old s then new @ replace (drop (length old) s) old new
      else hd s # replace (tl s) old new)"
  by pat_completeness auto
termination
  by (relation "measure (\<lambda>(s, old, new). length s)") auto

declare replace.simps [simp del]

text \<open>
  \<^verbatim>\<open>str.strip(chars)\<close>: the longest prefix and the longest suffix made of
  characters of \<open>chars\<close> are removed.
\<close>

definition lstrip :: "string \<Rightarrow> string \<Rightarrow> string" where
  "lstrip s chars = dropWhile (\<lambda>c. c \<in> set chars) s"

definition rstrip :: "string \<Rightarrow> string \<Rightarrow> string" where
  "rstrip s chars = rev (dropWhile (\<lambda>c. c \<in> set chars) (rev s))"

definition strip :: "string \<Rightarrow> string \<Rightarrow> string" where
  "strip s chars = rstrip (lstrip s chars) chars"

text \<open>\<^verbatim>\<open>sub in s\<close> on strings: \<open>sub\<close> occurs in \<open>s\<close> as a contiguous substring.\<close>

fun contains :: "string \<Rightarrow> string \<Rightarrow> bool" where
  "contains [] sub = (sub = [])"
| "contains (c # s) sub = (prefix sub (c # s) \<or> contains s sub)"

text \<open>
  \<^verbatim>\<open>str.split(sep)\<close> with an explicit separator: the pieces between the
  non-overlapping occurrences of \<open>sep\<close>, found from the left; an empty separator
  raises \<^verbatim>\<open>ValueError\<close>. \<open>split_acc\<close> carries the piece being read, reversed.
\<close>

function split_acc :: "string \<Rightarrow> string \<Rightarrow> string \<Rightarrow> string list" where
  "split_acc acc s sep =
     (if sep = [] \<or> s = [] then [rev acc]
      else if prefix sep s then rev acc # split_acc [] (drop (length sep) s) sep
      else split_acc (hd s # acc) (tl s) sep)"
  by pat_completeness auto
termination
  by (relation "measure (\<lambda>(acc, s, sep). length s)") auto

declare split_acc.simps [simp del]

definition split :: "string \<Rightarrow> string \<Rightarrow> py_error + string list" where
  "split s sep = (if sep = [] then Inl ValueError else Inr (split_acc [] s sep))"

text \<open>\<^verbatim>\<open>xs[-1]\<close>: the last element; \<^verbatim>\<open>IndexError\<close> on the empty list.\<close>

definition index_last :: "'a list \<Rightarrow> py_error + 'a" where
  "index_last xs = (if xs = [] then Inl IndexError else Inr (last xs))"

section \<open>\<^verbatim>\<open>lib/utils.py\<close>: the string helpers\<close>

text \<open>
  \<^verbatim>\<open>return "@" in email and "." in email.split("@")[-1]\<close>.
  The \<^verbatim>\<open>and\<close> evaluates its right operand only when the left one is true.
\<close>

definition validate_email :: "string \<Rightarrow> py_error + bool" where
  "validate_email email =
     (if \<not> contains email ''@'' then Inr False
      else case split email ''@'' of
             Inl e \<Rightarrow> Inl e
           | Inr parts \<Rightarrow>
               (case index_last parts of
                  Inl e \<Rightarrow> Inl e
                | Inr domain \<Rightarrow> Inr (contains domain ''.'')))"

text \<open>\<^verbatim>\<open>return text.lower().replace(" ", "-").strip("-")\<close>\<close>

definition slugify :: "string \<Rightarrow> string" where
  "slugify text = strip (replace (lower text) '' '' ''-'') ''-''"

section \<open>Python numbers\<close>

subsection \<open>Floats: IEEE 754 binary64\<close>

text \<open>
  A Python \<open>float\<close> is a binary64 value: a sign bit, an 11-bit exponent field and a
  52-bit fraction field. \<open>decode\<close> reads the three fields: exponent field 2047 is an
  infinity (fraction 0) or a NaN; exponent field 0 is a zero or a subnormal,
  \<open>F * 2 ^ (-1074)\<close>; any other field \<open>E\<close> is the normal number
  \<open>(2 ^ 52 + F) * 2 ^ (E - 1075)\<close>.
\<close>

datatype double = Double (sign: bool) (expo: "11 word") (frac: "52 word")

datatype fval = FNan | FInf bool | FFin bool int int

definition decode :: "double \<Rightarrow> fval" where
  "decode d =
     (let E = uint (expo d); F = uint (frac d) in
      if E = 2047 then (if F = 0 then FInf (sign d) else FNan)
      else if E = 0 then FFin (sign d) F (- 1074)
      else FFin (sign d) (2 ^ 52 + F) (E - 1075))"

definition pack :: "bool \<Rightarrow> int \<Rightarrow> int \<Rightarrow> double" where
  "pack s m e =
     (if m < 2 ^ 52 then Double s 0 (word_of_int m)
      else Double s (word_of_int (e + 1075)) (word_of_int (m - 2 ^ 52)))"

definition nan :: double where
  "nan = Double False 2047 (2 ^ 51)"

definition pos_zero :: double where
  "pos_zero = Double False 0 0"

text \<open>\<^verbatim>\<open>int.bit_length()\<close> of a non-negative integer.\<close>

function bit_length :: "int \<Rightarrow> int" where
  "bit_length n = (if n \<le> 0 then 0 else 1 + bit_length (n div 2))"
  by pat_completeness auto
termination
  by (relation "measure nat") auto

declare bit_length.simps [simp del]

text \<open>
  \<open>ilog2 n d\<close> is the integer \<open>k\<close> with \<open>2 ^ k \<le> n / d < 2 ^ (k + 1)\<close>, for positive
  \<open>n\<close> and \<open>d\<close>; \<open>rdiv_even n d\<close> is \<open>n / d\<close> rounded to the nearest integer, a tie
  going to the even neighbour.
\<close>

definition ilog2 :: "int \<Rightarrow> int \<Rightarrow> int" where
  "ilog2 n d =
     (let k = bit_length n - bit_length d in
      if d * 2 ^ nat k \<le> n * 2 ^ nat (- k) then k else k - 1)"

definition rdiv_even :: "int \<Rightarrow> int \<Rightarrow> int" where
  "rdiv_even n d =
     (let q = n div d; r = n mod d in
      if 2 * r < d then q
      else if d < 2 * r then q + 1
      else if even q then q else q + 1)"

text \<open>
  Rounding to nearest, ties to even: the double nearest to the rational \<open>n / d\<close>
  (\<open>n \<ge> 0\<close>, \<open>d > 0\<close>) with sign \<open>s\<close>. The result is a multiple of \<open>2 ^ q\<close> where
  \<open>q\<close> leaves 53 significant bits, and never goes below the subnormal spacing
  \<open>2 ^ (-1074)\<close>; a result of \<open>2 ^ 1024\<close> or more is an infinity.
\<close>

definition round_rat :: "bool \<Rightarrow> int \<Rightarrow> int \<Rightarrow> double" where
  "round_rat s n d =
     (if n = 0 then Double s 0 0
      else
        let q = max (ilog2 n d - 52) (- 1074);
            m = rdiv_even (n * 2 ^ nat (- q)) (d * 2 ^ nat q);
            q' = (if m = 2 ^ 53 then q + 1 else q);
            m' = (if m = 2 ^ 53 then 2 ^ 52 else m)
        in if 971 < q' then Double s 2047 0 else pack s m' q')"

text \<open>
  \<^verbatim>\<open>x + y\<close> on floats. A NaN operand or the sum of opposite infinities gives a NaN;
  an infinity absorbs a finite operand; otherwise the exact sum is rounded. An exact
  sum of zero is \<open>+0.0\<close>, except that \<open>-0.0 + -0.0\<close> is \<open>-0.0\<close>.
\<close>

definition fadd :: "double \<Rightarrow> double \<Rightarrow> double" where
  "fadd x y =
     (case (decode x, decode y) of
        (FNan, _) \<Rightarrow> nan
      | (_, FNan) \<Rightarrow> nan
      | (FInf s, FInf t) \<Rightarrow> (if s = t then x else nan)
      | (FInf s, FFin _ _ _) \<Rightarrow> x
      | (FFin _ _ _, FInf t) \<Rightarrow> y
      | (FFin s m e, FFin t n f) \<Rightarrow>
          (let g = min e f;
               a = (if s then - m else m) * 2 ^ nat (e - g);
               b = (if t then - n else n) * 2 ^ nat (f - g);
               c = a + b
           in if c = 0 then Double (s \<and> t) 0 0
              else round_rat (c < 0) (\<bar>c\<bar> * 2 ^ nat g) (2 ^ nat (- g))))"

text \<open>
  \<^verbatim>\<open>x * y\<close> on floats. A NaN operand or infinity times zero gives a NaN; the
  sign of any other product is the exclusive or of the signs, and the exact product
  is rounded.
\<close>

definition fmul :: "double \<Rightarrow> double \<Rightarrow> double" where
  "fmul x y =
     (case (decode x, decode y) of
        (FNan, _) \<Rightarrow> nan
      | (_, FNan) \<Rightarrow> nan
      | (FInf s, FInf t) \<Rightarrow> Double (s \<noteq> t) 2047 0
      | (FInf s, FFin t n f) \<Rightarrow> (if n = 0 then nan else Double (s \<noteq> t) 2047 0)
      | (FFin s m e, FInf t) \<Rightarrow> (if m = 0 then nan else Double (s \<noteq> t) 2047 0)
      | (FFin s m e, FFin t n f) \<Rightarrow>
          round_rat (s \<noteq> t) (m * n * 2 ^ nat (e + f)) (2 ^ nat (- (e + f))))"

text \<open>
  A float literal of the source text, such as \<^verbatim>\<open>0.08\<close> or \<^verbatim>\<open>29.99\<close>, denotes the
  double nearest to the decimal it spells: \<open>float_lit 8 100\<close> and
  \<open>float_lit 2999 100\<close>.
\<close>

definition float_lit :: "int \<Rightarrow> int \<Rightarrow> double" where
  "float_lit n d = round_rat False n d"

definition is_inf :: "double \<Rightarrow> bool" where
  "is_inf x = (case decode x of FInf _ \<Rightarrow> True | _ \<Rightarrow> False)"

text \<open>
  \<^verbatim>\<open>float(i)\<close> for an integer \<open>i\<close>: the nearest double, and \<^verbatim>\<open>OverflowError\<close> when
  that is out of range.
\<close>

definition float_of_int :: "int \<Rightarrow> py_error + double" where
  "float_of_int i =
     (let x = round_rat (i < 0) \<bar>i\<bar> 1
      in if is_inf x then Inl OverflowError else Inr x)"

subsection \<open>Numbers and their arithmetic\<close>

text \<open>
  The numbers the program meets are integers (the start value \<^verbatim>\<open>0\<close> of
  \<^verbatim>\<open>sum\<close>, the arguments of the tests of \<^verbatim>\<open>format_currency\<close>) and floats.
  In a mixed operation Python converts the integer operand to a float.
  \<open>and_then\<close> passes a result on and lets an exception through.
\<close>

datatype num = PInt int | PFloat double

definition and_then :: "py_error + 'a \<Rightarrow> ('a \<Rightarrow> py_error + 'b) \<Rightarrow> py_error + 'b" where
  "and_then r f = (case r of Inl e \<Rightarrow> Inl e | Inr v \<Rightarrow> f v)"

fun py_add :: "num \<Rightarrow> num \<Rightarrow> py_error + num" where
  "py_add (PInt a) (PInt b) = Inr (PInt (a + b))"
| "py_add (PInt a) (PFloat y) = and_then (float_of_int a) (\<lambda>x. Inr (PFloat (fadd x y)))"
| "py_add (PFloat x) (PInt b) = and_then (float_of_int b) (\<lambda>y. Inr (PFloat (fadd x y)))"
| "py_add (PFloat x) (PFloat y) = Inr (PFloat (fadd x y))"

fun py_mul :: "num \<Rightarrow> num \<Rightarrow> py_error + num" where
  "py_mul (PInt a) (PInt b) = Inr (PInt (a * b))"
| "py_mul (PInt a) (PFloat y) = and_then (float_of_int a) (\<lambda>x. Inr (PFloat (fmul x y)))"
| "py_mul (PFloat x) (PInt b) = and_then (float_of_int b) (\<lambda>y. Inr (PFloat (fmul x y)))"
| "py_mul (PFloat x) (PFloat y) = Inr (PFloat (fmul x y))"

text \<open>
  \<^verbatim>\<open>sum(iterable)\<close> over floats. The start value is the integer \<^verbatim>\<open>0\<close>, so
  the sum of no item is the integer \<^verbatim>\<open>0\<close>, and the first float \<open>x\<close> turns it into
  the float \<^verbatim>\<open>0.0 + x\<close>. How the remaining floats are added depends on the
  interpreter. CPython up to version 3.11 adds them one by one from left to right.
  CPython from version 3.12 on makes the same additions and also collects their
  rounding errors in a compensation term \<open>c\<close> (Neumaier's summation):

  \<^verbatim>\<open>t = f + x; if (fabs(f) >= fabs(x)) c += (f - t) + x; else c += (x - t) + f; f = t;\<close>

  and at the end \<^verbatim>\<open>if (c && isfinite(c)) f += c;\<close>. The repository does not fix the
  version, so the summation is a parameter of the model.
\<close>

datatype summation = Sequential | Compensated

definition is_finite :: "double \<Rightarrow> bool" where
  "is_finite x = (case decode x of FFin _ _ _ \<Rightarrow> True | _ \<Rightarrow> False)"

definition is_zero :: "double \<Rightarrow> bool" where
  "is_zero x = (case decode x of FFin _ m _ \<Rightarrow> m = 0 | _ \<Rightarrow> False)"

text \<open>\<^verbatim>\<open>x - y\<close> on floats is \<^verbatim>\<open>x + (-y)\<close>; negation flips the sign bit.\<close>

definition fneg :: "double \<Rightarrow> double" where
  "fneg x = Double (\<not> sign x) (expo x) (frac x)"

definition fsub :: "double \<Rightarrow> double \<Rightarrow> double" where
  "fsub x y = fadd x (fneg y)"

text \<open>\<^verbatim>\<open>fabs(x) >= fabs(y)\<close>: false when an operand is a NaN.\<close>

definition fabs_ge :: "double \<Rightarrow> double \<Rightarrow> bool" where
  "fabs_ge x y =
     (case (decode x, decode y) of
        (FNan, _) \<Rightarrow> False
      | (_, FNan) \<Rightarrow> False
      | (FInf _, _) \<Rightarrow> True
      | (FFin _ _ _, FInf _) \<Rightarrow> False
      | (FFin s m e, FFin t n f) \<Rightarrow>
          (let g = min e f in n * 2 ^ nat (f - g) \<le> m * 2 ^ nat (e - g)))"

fun neumaier :: "double \<Rightarrow> double \<Rightarrow> double list \<Rightarrow> double" where
  "neumaier f c [] = (if \<not> is_zero c \<and> is_finite c then fadd f c else f)"
| "neumaier f c (x # xs) =
     (let t = fadd f x;
          c' = (if fabs_ge f x then fadd c (fadd (fsub f t) x)
                else fadd c (fadd (fsub x t) f))
      in neumaier t c' xs)"

definition py_sum :: "summation \<Rightarrow> double list \<Rightarrow> num" where
  "py_sum impl xs =
     (case xs of
        [] \<Rightarrow> PInt 0
      | x # ys \<Rightarrow>
          (case impl of
             Sequential \<Rightarrow> PFloat (foldl fadd (fadd pos_zero x) ys)
           | Compensated \<Rightarrow> PFloat (neumaier (fadd pos_zero x) pos_zero ys)))"

subsection \<open>The format specification \<^verbatim>\<open>,.2f\<close>\<close>

text \<open>
  \<open>digits n\<close> is the decimal numeral of \<open>n \<ge> 0\<close>; \<open>add_commas\<close> puts a comma before
  every group of three digits counted from the right.
\<close>

definition digit_char :: "int \<Rightarrow> char" where
  "digit_char d = ''0123456789'' ! nat d"

function digits :: "int \<Rightarrow> string" where
  "digits n = (if n < 10 then [digit_char n] else digits (n div 10) @ [digit_char (n mod 10)])"
  by pat_completeness auto
termination
  by (relation "measure nat") auto

declare digits.simps [simp del]

fun commas_rev :: "string \<Rightarrow> string" where
  "commas_rev (a # b # c # d # rest) = a # b # c # CHR '','' # commas_rev (d # rest)"
| "commas_rev ds = ds"

definition add_commas :: "string \<Rightarrow> string" where
  "add_commas ds = rev (commas_rev (rev ds))"

text \<open>
  \<^verbatim>\<open>format(x, ",.2f")\<close> of a float: \<^verbatim>\<open>nan\<close>, \<^verbatim>\<open>inf\<close> or \<^verbatim>\<open>-inf\<close> for the
  special values; otherwise the exact value of \<open>x\<close> is rounded to hundredths (ties to
  even) and printed with a minus sign when the sign bit is set, the integer part
  with thousands separators, a point and two fraction digits. An integer is
  converted to a float first.
\<close>

definition format_float :: "double \<Rightarrow> string" where
  "format_float x =
     (case decode x of
        FNan \<Rightarrow> ''nan''
      | FInf s \<Rightarrow> (if s then ''-inf'' else ''inf'')
      | FFin s m e \<Rightarrow>
          (let n = rdiv_even (m * 100 * 2 ^ nat e) (2 ^ nat (- e))
           in (if s then ''-'' else []) @ add_commas (digits (n div 100)) @ ''.''
              @ [digit_char (n mod 100 div 10), digit_char (n mod 10)]))"

definition format_num :: "num \<Rightarrow> py_error + string" where
  "format_num a =
     (case a of
        PFloat x \<Rightarrow> Inr (format_float x)
      | PInt i \<Rightarrow> and_then (float_of_int i) (\<lambda>x. Inr (format_float x)))"

section \<open>\<^verbatim>\<open>lib/models.py\<close>\<close>

text \<open>
  The dataclasses. \<^verbatim>\<open>User.created_at\<close> is a point in time, filled in at
  construction when none is given; \<^verbatim>\<open>Product.price\<close> is annotated \<^verbatim>\<open>float\<close>.
\<close>

record user =
  u_id :: int
  u_name :: string
  u_email :: string
  u_created_at :: "int option"

record product =
  p_id :: int
  p_name :: string
  price :: double
  description :: string
  in_stock :: bool

record order =
  o_id :: int
  o_user :: user
  o_products :: "product list"
  o_status :: string

text \<open>\<^verbatim>\<open>Order.total\<close>: \<^verbatim>\<open>return sum(p.price for p in self.products)\<close>\<close>

definition order_total :: "summation \<Rightarrow> order \<Rightarrow> num" where
  "order_total impl self = py_sum impl (map price (o_products self))"

section \<open>\<^verbatim>\<open>lib/utils.py\<close>: totals and currency\<close>

text \<open>\<^verbatim>\<open>return sum(p.price for p in products)\<close>\<close>

definition calculate_total :: "summation \<Rightarrow> product list \<Rightarrow> num" where
  "calculate_total impl products = py_sum impl (map price products)"

text \<open>\<^verbatim>\<open>return f"${amount:,.2f}"\<close>\<close>

definition format_currency :: "num \<Rightarrow> py_error + string" where
  "format_currency amount = and_then (format_num amount) (\<lambda>s. Inr (''$'' @ s))"

section \<open>\<^verbatim>\<open>src/main.py\<close>\<close>

text \<open>
  The dictionary \<^verbatim>\<open>process_order\<close> returns maps its string keys to an integer, to
  strings and to a list of strings. The first parameter is the summation of the
  interpreter that runs the program.
\<close>

datatype py_value = PyInt int | PyStr string | PyList "py_value list"

definition process_order ::
  "summation \<Rightarrow> user \<Rightarrow> product list \<Rightarrow> py_error + (string \<rightharpoonup> py_value)" where
  "process_order impl user products =
     (let subtotal = calculate_total impl products in
     and_then (py_mul subtotal (PFloat (float_lit 8 100))) (\<lambda>tax.
     and_then (py_add subtotal tax) (\<lambda>total.
     and_then (format_currency subtotal) (\<lambda>f_subtotal.
     and_then (format_currency tax) (\<lambda>f_tax.
     and_then (format_currency total) (\<lambda>f_total.
       Inr [''user_id'' \<mapsto> PyInt (u_id user),
            ''user_name'' \<mapsto> PyStr (u_name user),
            ''subtotal'' \<mapsto> PyStr f_subtotal,
            ''tax'' \<mapsto> PyStr f_tax,
            ''total'' \<mapsto> PyStr f_total,
            ''items'' \<mapsto> PyList (map (\<lambda>p. PyStr (p_name p)) products)]))))))"

text \<open>The sample data of \<^verbatim>\<open>main\<close>, created at time \<open>now\<close>.\<close>

definition alice :: "int \<Rightarrow> user" where
  "alice now = \<lparr>u_id = 1, u_name = ''Alice'', u_email = ''alice@example.com'',
                u_created_at = Some now\<rparr>"

definition widget :: product where
  "widget = \<lparr>p_id = 101, p_name = ''Widget'', price = float_lit 2999 100,
             description = [], in_stock = True\<rparr>"

definition gadget :: product where
  "gadget = \<lparr>p_id = 102, p_name = ''Gadget'', price = float_lit 4999 100,
             description = [], in_stock = True\<rparr>"

section \<open>Reference notions used to state the properties\<close>

text \<open>
  What lowercasing followed by the replacement of spaces does to one character:
  the character is lowercased, and a space becomes a hyphen.
\<close>

definition slug_char :: "char \<Rightarrow> char" where
  "slug_char c = (if lower_char c = CHR '' '' then CHR ''-'' else lower_char c)"

text \<open>
  The real number a finite double stands for, \<open>\<plusminus> m * 2 ^ e\<close>; the value given to
  an infinity or a NaN is never used. \<open>canonical\<close> describes the pairs \<open>(m, e)\<close>
  that \<open>decode\<close> produces: subnormal, or normal with 53 significant bits.
\<close>

definition is_nan :: "double \<Rightarrow> bool" where
  "is_nan x = (case decode x of FNan \<Rightarrow> True | _ \<Rightarrow> False)"

definition valof :: "double \<Rightarrow> real" where
  "valof x =
     (case decode x of
        FFin s m e \<Rightarrow> (if s then - 1 else 1) * real_of_int m * 2 powi e
      | _ \<Rightarrow> 0)"

definition canonical :: "int \<Rightarrow> int \<Rightarrow> bool" where
  "canonical m e =
     ((0 \<le> m \<and> m < 2 ^ 52 \<and> e = - 1074)
      \<or> (2 ^ 52 \<le> m \<and> m < 2 ^ 53 \<and> - 1074 \<le> e \<and> e \<le> 971))"

text \<open>
  \<^verbatim>\<open>a == b\<close> on numbers: finite numbers are equal when their values are (so
  \<open>-0.0\<close> equals \<open>0.0\<close> and \<open>0\<close>), an infinity equals only itself, a NaN equals
  nothing. \<open>num_finite\<close> and \<open>num_val\<close> extend finiteness and the value to the
  numbers.
\<close>

definition num_finite :: "num \<Rightarrow> bool" where
  "num_finite a = (case a of PInt i \<Rightarrow> True | PFloat x \<Rightarrow> is_finite x)"

definition num_val :: "num \<Rightarrow> real" where
  "num_val a = (case a of PInt i \<Rightarrow> real_of_int i | PFloat x \<Rightarrow> valof x)"

definition num_eq :: "num \<Rightarrow> num \<Rightarrow> bool" where
  "num_eq a b =
     (if num_finite a \<and> num_finite b then num_val a = num_val b
      else case (a, b) of (PFloat x, PFloat y) \<Rightarrow> is_inf x \<and> x = y | _ \<Rightarrow> False)"

text \<open>
  A finite double is on the grid of spacing \<open>2 ^ k\<close> when it is an integer multiple
  of \<open>2 ^ k\<close>; \<open>units k x\<close> is then its magnitude counted in units of \<open>2 ^ k\<close>.
  Prices are \<open>exact\<close> at spacing \<open>2 ^ k\<close> when all of them are on that grid and
  their magnitudes add up to less than \<open>2 ^ 53\<close> units: every partial sum is then a
  double. Whole numbers of dollars below \<open>2 ^ 53\<close> in total are exact at \<open>k = 0\<close>,
  quarters of a dollar at \<open>k = -2\<close>.
\<close>

definition on_grid :: "int \<Rightarrow> double \<Rightarrow> bool" where
  "on_grid k x = (case decode x of FFin s m e \<Rightarrow> 2 ^ nat (k - e) dvd m | _ \<Rightarrow> False)"

definition units :: "int \<Rightarrow> double \<Rightarrow> int" where
  "units k x =
     (case decode x of
        FFin s m e \<Rightarrow> m * 2 ^ nat (e - k) div 2 ^ nat (k - e)
      | _ \<Rightarrow> 0)"

definition exact_prices :: "int \<Rightarrow> double list \<Rightarrow> bool" where
  "exact_prices k xs =
     (- 1074 \<le> k \<and> k \<le> 971 \<and> list_all (on_grid k) xs
      \<and> sum_list (map (units k) xs) < 2 ^ 53)"

text \<open>
  A product with the price \<open>x\<close> and the default description and stock flag; the
  identifier and the name play no part in a total.
\<close>

definition priced :: "double \<Rightarrow> product" where
  "priced x = \<lparr>p_id = 0, p_name = [], price = x, description = [], in_stock = True\<rparr>"

section \<open>Properties of the string methods\<close>


lemma replace_char: "replace s [c] [d] = map (\<lambda>x. if x = c then d else x) s"
proof (induction s)
  case Nil show ?case by (simp add: replace.simps)
next
  case (Cons x s)
  show ?case using Cons by (subst replace.simps) auto
qed

lemma split_acc_ne: "split_acc acc s sep \<noteq> []"
  by (induction acc s sep rule: split_acc.induct) (subst split_acc.simps, simp)

lemma split_acc_last:
  "last (split_acc acc s [c]) =
     (if c \<in> set s then rev (takeWhile (\<lambda>x. x \<noteq> c) (rev s))
      else rev acc @ s)"
proof (induction s arbitrary: acc)
  case Nil show ?case by (subst split_acc.simps) simp
next
  case (Cons x s)
  show ?case
  proof (cases "x = c")
    case True
    have "split_acc acc (x # s) [c] = rev acc # split_acc [] s [c]"
      using True by (subst split_acc.simps) simp
    then show ?thesis using True Cons[of "[]"] split_acc_ne[of "[]" s "[c]"]
      by (auto simp: takeWhile_append  takeWhile_eq_all_conv)
  next
    case False
    have "split_acc acc (x # s) [c] = split_acc (x # acc) s [c]"
      using False by (subst split_acc.simps) simp
    then show ?thesis using False Cons[of "x # acc"]
      by (auto simp: takeWhile_append)
  qed
qed

lemma contains_char: "contains s [c] = (c \<in> set s)"
  by (induction s) auto

lemma lower_char_idem: "lower_char (lower_char c) = lower_char c"
proof -
  have "(of_char c :: nat) < 256" by (simp add: of_char_def)
  then show ?thesis
    by (auto simp: lower_char_def Let_def)
qed

lemma lower_hyphen: "lower_char CHR ''-'' = CHR ''-''"
  by (simp add: lower_char_def)

lemma slug_char_idem: "slug_char (slug_char c) = slug_char c"
  by (simp add: slug_char_def lower_char_idem lower_hyphen)

lemma slugify_map: "slugify t = strip (map slug_char t) ''-''"
  by (simp add: slugify_def lower_def replace_char slug_char_def cong: map_cong)

lemma strip_set: "set (strip s chars) \<subseteq> set s"
proof -
  have d: "set (dropWhile P xs) \<subseteq> set xs" for P and xs :: string
    by (auto dest: set_dropWhileD)
  have "set (strip s chars) \<subseteq> set (lstrip s chars)"
    unfolding strip_def rstrip_def using d[of _ "rev (lstrip s chars)"] by simp
  also have "\<dots> \<subseteq> set s"
    unfolding lstrip_def by (rule d)
  finally show ?thesis .
qed

lemma lstrip_idem: "lstrip (lstrip s cs) cs = lstrip s cs"
  by (simp add: lstrip_def dropWhile_idem)

lemma lstrip_rstrip:
  assumes "lstrip s cs = s" shows "lstrip (rstrip s cs) cs = rstrip s cs"
proof (cases s)
  case Nil then show ?thesis by (simp add: lstrip_def rstrip_def)
next
  case (Cons x xs)
  with assms have "dropWhile (\<lambda>c. c \<in> set cs) (x # xs) = x # xs"
    by (simp add: lstrip_def)
  then have x: "x \<notin> set cs"
    using hd_dropWhile[of "\<lambda>c. c \<in> set cs" "x # xs"] by simp
  have "rstrip (x # xs) cs =
      x # (if \<forall>y\<in>set xs. y \<in> set cs then [] else rev (dropWhile (\<lambda>c. c \<in> set cs) (rev xs)))"
    unfolding rstrip_def using x
    by (simp add: dropWhile_append)
  then show ?thesis using x Cons by (auto simp: lstrip_def)
qed

lemma rstrip_idem: "rstrip (rstrip s cs) cs = rstrip s cs"
  by (simp add: rstrip_def dropWhile_idem)

lemma strip_idem: "strip (strip s cs) cs = strip s cs"
  unfolding strip_def
  by (simp add: lstrip_rstrip lstrip_idem rstrip_idem)

lemma strip_decomp:
  "\<exists>a b. s = replicate a c @ strip s [c] @ replicate b c"
proof -
  have l: "\<And>xs. \<exists>a. xs = replicate a c @ lstrip xs [c]"
  proof -
    fix xs show "\<exists>a. xs = replicate a c @ lstrip xs [c]"
    proof (induction xs)
      case Nil show ?case by (simp add: lstrip_def)
    next
      case (Cons x xs)
      show ?case
      proof (cases "x = c")
        case True
        from Cons obtain a where "xs = replicate a c @ lstrip xs [c]" by blast
        then have "x # xs = replicate (Suc a) c @ lstrip (x # xs) [c]"
          using True by (simp add: lstrip_def)
        then show ?thesis by blast
      next
        case False
        then have "x # xs = replicate 0 c @ lstrip (x # xs) [c]" by (simp add: lstrip_def)
        then show ?thesis by blast
      qed
    qed
  qed
  have r: "\<exists>b. xs = rstrip xs [c] @ replicate b c" for xs
  proof -
    from l[of "rev xs"] obtain b where "rev xs = replicate b c @ lstrip (rev xs) [c]" by blast
    then have "rev (rev xs) = rev (replicate b c @ lstrip (rev xs) [c])" by simp
    then have "xs = rstrip xs [c] @ replicate b c"
      by (simp add: rstrip_def lstrip_def)
    then show ?thesis by blast
  qed
  from l[of s] obtain a where a: "s = replicate a c @ lstrip s [c]" by blast
  from r[of "lstrip s [c]"] obtain b where "lstrip s [c] = strip s [c] @ replicate b c"
    by (auto simp: strip_def)
  with a have "s = replicate a c @ strip s [c] @ replicate b c" by simp
  then show ?thesis by blast
qed

lemma strip_no_prefix: "\<not> prefix [c] (strip s [c])"
proof
  assume "prefix [c] (strip s [c])"
  then obtain ys where ys: "strip s [c] = c # ys" by (auto simp: prefix_def)
  have "lstrip (strip s [c]) [c] = strip s [c]"
    unfolding strip_def by (simp add: lstrip_rstrip lstrip_idem)
  with ys have "dropWhile (\<lambda>x. x \<in> set [c]) (c # ys) = c # ys" by (simp add: lstrip_def)
  then show False
    using hd_dropWhile[of "\<lambda>x. x \<in> set [c]" "c # ys"] by simp
qed

lemma strip_no_suffix: "\<not> suffix [c] (strip s [c])"
proof
  assume "suffix [c] (strip s [c])"
  then obtain ys where ys: "strip s [c] = ys @ [c]" by (auto simp: suffix_def)
  have "rstrip (strip s [c]) [c] = strip s [c]"
    unfolding strip_def by (simp add: rstrip_idem)
  with ys have "rev (dropWhile (\<lambda>x. x = c) (rev ys)) = ys @ [c]" by (simp add: rstrip_def)
  then have "length (dropWhile (\<lambda>x. x = c) (rev ys)) = Suc (length ys)"
    by (metis length_rev length_append_singleton)
  moreover have "length (dropWhile (\<lambda>x. x = c) (rev ys)) \<le> length (rev ys)"
    by (rule length_dropWhile_le)
  ultimately show False by simp
qed

lemma after_last_decomp:
  assumes "c \<in> set s"
  shows "\<exists>pre. s = pre @ c # rev (takeWhile (\<lambda>x. x \<noteq> c) (rev s))"
proof -
  let ?P = "\<lambda>x. x \<noteq> c"
  have ne: "dropWhile ?P (rev s) \<noteq> []"
    using assms by (simp add: dropWhile_eq_Nil_conv)
  then have "hd (dropWhile ?P (rev s)) = c"
    using hd_dropWhile[of ?P "rev s"] by simp
  with ne obtain ys where ys: "dropWhile ?P (rev s) = c # ys"
    by (cases "dropWhile ?P (rev s)") auto
  have "rev s = takeWhile ?P (rev s) @ dropWhile ?P (rev s)" by simp
  with ys have "rev s = takeWhile ?P (rev s) @ c # ys" by simp
  then have "rev (rev s) = rev (takeWhile ?P (rev s) @ c # ys)" by (rule arg_cong)
  then have "s = rev ys @ c # rev (takeWhile ?P (rev s))" by simp
  then show ?thesis by blast
qed

lemma after_last_notin: "c \<notin> set (rev (takeWhile (\<lambda>x. x \<noteq> c) (rev s)))"
  using set_takeWhileD[of c "\<lambda>x. x \<noteq> c" "rev s"] by auto

lemma after_last_unique:
  assumes "s = pre @ c # dm" and "c \<notin> set dm"
  shows "rev (takeWhile (\<lambda>x. x \<noteq> c) (rev s)) = dm"
  using assms by (simp add: takeWhile_append takeWhile_eq_all_conv)

section \<open>\<^verbatim>\<open>validate_email\<close>\<close>

text \<open>
  Claim C6. For every string \<open>s\<close>, \<open>validate_email s\<close> returns (it never raises)
  and the result is true exactly when \<open>s\<close> contains an \<open>@\<close> and the part of \<open>s\<close>
  after its last \<open>@\<close> contains a dot: \<open>s\<close> splits as \<open>pre @ dm\<close> around an
  \<open>@\<close> with no further \<open>@\<close> in \<open>dm\<close> and a dot in \<open>dm\<close>. For \<open>user@\<close> the
  part after the \<open>@\<close> is empty and the result is false.
\<close>


theorem validate_email_iff:
  "validate_email s =
     Inr (\<exists>pre dm. s = pre @ CHR ''@'' # dm \<and> CHR ''@'' \<notin> set dm \<and> CHR ''.'' \<in> set dm)
   \<and> validate_email ''user@'' = Inr False"
proof
  let ?at = "CHR ''@''"
  let ?d = "rev (takeWhile (\<lambda>x. x \<noteq> ?at) (rev s))"
  show "validate_email s =
     Inr (\<exists>pre dm. s = pre @ ?at # dm \<and> ?at \<notin> set dm \<and> CHR ''.'' \<in> set dm)"
  proof (cases "?at \<in> set s")
    case False
    then have "validate_email s = Inr False"
      by (simp add: validate_email_def contains_char)
    moreover have "\<not> (\<exists>pre dm. s = pre @ ?at # dm \<and> ?at \<notin> set dm \<and> CHR ''.'' \<in> set dm)"
      using False by auto
    ultimately show ?thesis by simp
  next
    case True
    have "validate_email s = Inr (CHR ''.'' \<in> set ?d)"
      using True split_acc_ne[of "[]" s "''@''"]
      by (simp add: validate_email_def contains_char split_def index_last_def split_acc_last)
    moreover have "(\<exists>pre dm. s = pre @ ?at # dm \<and> ?at \<notin> set dm \<and> CHR ''.'' \<in> set dm)
        = (CHR ''.'' \<in> set ?d)"
    proof
      assume "\<exists>pre dm. s = pre @ ?at # dm \<and> ?at \<notin> set dm \<and> CHR ''.'' \<in> set dm"
      then obtain pre dm where "s = pre @ ?at # dm" "?at \<notin> set dm" "CHR ''.'' \<in> set dm"
        by blast
      then show "CHR ''.'' \<in> set ?d" using after_last_unique[of s pre ?at dm] by simp
    next
      assume dot: "CHR ''.'' \<in> set ?d"
      from after_last_decomp[OF True] obtain pre where "s = pre @ ?at # ?d" by blast
      with dot after_last_notin[of ?at s] show
        "\<exists>pre dm. s = pre @ ?at # dm \<and> ?at \<notin> set dm \<and> CHR ''.'' \<in> set dm"
        by blast
    qed
    ultimately show ?thesis by simp
  qed
next
  show "validate_email ''user@'' = Inr False" by code_simp
qed

section \<open>\<^verbatim>\<open>slugify\<close>\<close>

text \<open>
  Claim C7. For every string \<open>t\<close>, \<open>slugify t\<close> is what remains of \<open>t\<close>, lowercased
  and with every space turned into a hyphen, once all leading and all trailing
  hyphens are removed: the character-wise image of \<open>t\<close> is a run of hyphens,
  then \<open>slugify t\<close>, then a run of hyphens, and \<open>slugify t\<close> neither starts
  nor ends with a hyphen. What lies between is kept as it is: inner runs of
  hyphens are not collapsed and punctuation stays. In particular
  \<open>slugify "Hello World" = "hello-world"\<close> and \<open>slugify " Test " = "test"\<close>.
\<close>


theorem slugify_spec:
  "(\<exists>a b. map slug_char t = replicate a CHR ''-'' @ slugify t @ replicate b CHR ''-'')
   \<and> \<not> prefix ''-'' (slugify t) \<and> \<not> suffix ''-'' (slugify t)
   \<and> slugify ''Hello World'' = ''hello-world''
   \<and> slugify '' Test '' = ''test''
   \<and> slugify ''a  b--c, d!'' = ''a--b--c,-d!''"
proof (intro conjI)
  show "\<exists>a b. map slug_char t = replicate a CHR ''-'' @ slugify t @ replicate b CHR ''-''"
    using strip_decomp[of "map slug_char t" "CHR ''-''"] by (simp only: slugify_map)
  show "\<not> prefix ''-'' (slugify t)"
    by (simp only: slugify_map strip_no_prefix not_False_eq_True)
  show "\<not> suffix ''-'' (slugify t)"
    by (simp only: slugify_map strip_no_suffix not_False_eq_True)
  show "slugify ''Hello World'' = ''hello-world''" by code_simp
  show "slugify '' Test '' = ''test''" by code_simp
  show "slugify ''a  b--c, d!'' = ''a--b--c,-d!''" by code_simp
qed

text \<open>
  Claim C10. \<open>slugify\<close> is idempotent: \<open>slugify (slugify t) = slugify t\<close> for every
  string \<open>t\<close>. The reasons the claim gives hold as well: the result has no space,
  it neither starts nor ends with a hyphen, and lowercasing leaves it unchanged.
\<close>

theorem slugify_idempotent:
  "slugify (slugify t) = slugify t
   \<and> CHR '' '' \<notin> set (slugify t)
   \<and> \<not> prefix ''-'' (slugify t) \<and> \<not> suffix ''-'' (slugify t)
   \<and> lower (slugify t) = slugify t"
proof (intro conjI)
  have img: "set (slugify t) \<subseteq> slug_char ` set t"
    using strip_set[of "map slug_char t" "''-''"] by (simp add: slugify_map)
  have fixed: "map slug_char (slugify t) = slugify t"
  proof -
    from img have "\<forall>x \<in> set (slugify t). slug_char x = x"
      using slug_char_idem by auto
    then show ?thesis by (simp add: map_idI)
  qed
  then have "slugify (slugify t) = strip (slugify t) ''-''"
    using slugify_map[of "slugify t"] by simp
  also have "\<dots> = strip (strip (map slug_char t) ''-'') ''-''"
    by (simp only: slugify_map)
  also have "\<dots> = strip (map slug_char t) ''-''"
    by (rule strip_idem)
  finally show "slugify (slugify t) = slugify t" by (simp only: slugify_map)
  show "CHR '' '' \<notin> set (slugify t)"
  proof
    assume "CHR '' '' \<in> set (slugify t)"
    with img obtain c where "slug_char c = CHR '' ''" by auto
    then show False by (simp add: slug_char_def split: if_splits)
  qed
  show "\<not> prefix ''-'' (slugify t)"
    by (simp only: slugify_map strip_no_prefix not_False_eq_True)
  show "\<not> suffix ''-'' (slugify t)"
    by (simp only: slugify_map strip_no_suffix not_False_eq_True)
  show "lower (slugify t) = slugify t"
  proof -
    have "lower_char (slug_char c) = slug_char c" for c
      by (simp add: slug_char_def lower_char_idem lower_hyphen)
    with img have "\<forall>x \<in> set (slugify t). lower_char x = x" by auto
    then show ?thesis by (simp add: lower_def map_idI)
  qed
qed

section \<open>Totals never raise\<close>

lemma float_of_int_0: "float_of_int 0 = Inr pos_zero"
  by (simp add: float_of_int_def round_rat_def is_inf_def decode_def pos_zero_def)

lemma calculate_total_unfold:
  "calculate_total impl ps =
     (case map price ps of
        [] \<Rightarrow> PInt 0
      | x # xs \<Rightarrow>
          PFloat (case impl of
                    Sequential \<Rightarrow> foldl fadd (fadd pos_zero x) xs
                  | Compensated \<Rightarrow> neumaier (fadd pos_zero x) pos_zero xs))"
  by (simp add: calculate_total_def py_sum_def split: list.splits summation.splits)

lemma calculate_total_cases:
  "calculate_total impl ps = PInt 0 \<or> (\<exists>x. calculate_total impl ps = PFloat x)"
  by (cases "map price ps") (simp_all add: calculate_total_unfold)

lemma format_currency_float: "format_currency (PFloat x) = Inr (''$'' @ format_float x)"
  by (simp add: format_currency_def format_num_def and_then_def)

lemma format_currency_0: "format_currency (PInt 0) = Inr ''$0.00''"
  by code_simp

section \<open>\<^verbatim>\<open>process_order\<close>\<close>

text \<open>
  Claim C1. For every user \<open>u\<close> and every list of products \<open>ps\<close>,
  \<open>process_order u ps\<close> returns a dictionary with exactly the six keys, where
  \<open>user_id\<close> is \<open>u.id\<close>, \<open>user_name\<close> is \<open>u.name\<close>, \<open>subtotal\<close> is \<open>format_currency\<close>
  of the sum of the prices, \<open>tax\<close> is \<open>format_currency\<close> of that number times 0.08,
  \<open>total\<close> is \<open>format_currency\<close> of the number obtained by adding the unformatted tax
  to the unformatted sum, and \<open>items\<close> lists the product names in order, duplicates
  included. None of the steps raises. The sum of the prices is the integer 0 when
  there is no product, and otherwise the float obtained by adding the prices to
  \<open>0.0\<close> from left to right in the interpreter's summation.
\<close>

theorem process_order_fields:
  "\<exists>subtotal tax total f_subtotal f_tax f_total d.
     subtotal =
       (case map price ps of
          [] \<Rightarrow> PInt 0
        | x # xs \<Rightarrow>
            PFloat (case impl of
                      Sequential \<Rightarrow> foldl fadd (fadd pos_zero x) xs
                    | Compensated \<Rightarrow> neumaier (fadd pos_zero x) pos_zero xs))
     \<and> py_mul subtotal (PFloat (float_lit 8 100)) = Inr tax
     \<and> py_add subtotal tax = Inr total
     \<and> format_currency subtotal = Inr f_subtotal
     \<and> format_currency tax = Inr f_tax
     \<and> format_currency total = Inr f_total
     \<and> process_order impl u ps = Inr d
     \<and> dom d = {''user_id'', ''user_name'', ''subtotal'', ''tax'', ''total'', ''items''}
     \<and> d ''user_id'' = Some (PyInt (u_id u))
     \<and> d ''user_name'' = Some (PyStr (u_name u))
     \<and> d ''subtotal'' = Some (PyStr f_subtotal)
     \<and> d ''tax'' = Some (PyStr f_tax)
     \<and> d ''total'' = Some (PyStr f_total)
     \<and> d ''items'' = Some (PyList (map (\<lambda>p. PyStr (p_name p)) ps))"
proof -
  define subtotal where "subtotal = calculate_total impl ps"
  have s: "subtotal =
       (case map price ps of
          [] \<Rightarrow> PInt 0
        | x # xs \<Rightarrow>
            PFloat (case impl of
                      Sequential \<Rightarrow> foldl fadd (fadd pos_zero x) xs
                    | Compensated \<Rightarrow> neumaier (fadd pos_zero x) pos_zero xs))"
    unfolding subtotal_def by (rule calculate_total_unfold)
  from calculate_total_cases[of impl ps]
  have sc: "subtotal = PInt 0 \<or> (\<exists>x. subtotal = PFloat x)"
    unfolding subtotal_def .
  from sc obtain t where t: "py_mul subtotal (PFloat (float_lit 8 100)) = Inr (PFloat t)"
    by (auto simp: float_of_int_0 and_then_def)
  from sc obtain z where z: "py_add subtotal (PFloat t) = Inr (PFloat z)"
    by (auto simp: float_of_int_0 and_then_def)
  from sc obtain fs where fs: "format_currency subtotal = Inr fs"
    by (auto simp: format_currency_0 format_currency_float)
  note ft = format_currency_float[of t] and fz = format_currency_float[of z]
  let ?d = "[''user_id'' \<mapsto> PyInt (u_id u), ''user_name'' \<mapsto> PyStr (u_name u),
            ''subtotal'' \<mapsto> PyStr fs, ''tax'' \<mapsto> PyStr (''$'' @ format_float t),
            ''total'' \<mapsto> PyStr (''$'' @ format_float z),
            ''items'' \<mapsto> PyList (map (\<lambda>p. PyStr (p_name p)) ps)]"
  have p: "process_order impl u ps = Inr ?d"
    unfolding process_order_def Let_def subtotal_def[symmetric]
    by (simp add: t z fs ft fz and_then_def)
  have dm: "dom ?d = {''user_id'', ''user_name'', ''subtotal'', ''tax'', ''total'', ''items''}"
    by auto
  have "?d ''user_id'' = Some (PyInt (u_id u))" "?d ''user_name'' = Some (PyStr (u_name u))"
    "?d ''subtotal'' = Some (PyStr fs)" "?d ''tax'' = Some (PyStr (''$'' @ format_float t))"
    "?d ''total'' = Some (PyStr (''$'' @ format_float z))"
    "?d ''items'' = Some (PyList (map (\<lambda>p. PyStr (p_name p)) ps))"
    by simp_all
  with s t z fs ft fz p dm show ?thesis by blast
qed

text \<open>
  Claim C2. For the user Alice and the products Widget at 29.99 and Gadget at
  49.99, \<open>process_order\<close> returns a dictionary with subtotal \<open>$79.98\<close>, tax \<open>$6.40\<close>
  (the product of the sum and 0.08, about 6.3984, rounded to two fraction digits by
  the formatting), total \<open>$86.38\<close> and items Widget, Gadget, whichever summation
  the interpreter has.
\<close>

theorem process_order_demo:
  "\<exists>d. process_order impl (alice now) [widget, gadget] = Inr d
     \<and> d ''user_id'' = Some (PyInt 1)
     \<and> d ''user_name'' = Some (PyStr ''Alice'')
     \<and> d ''subtotal'' = Some (PyStr ''$79.98'')
     \<and> d ''tax'' = Some (PyStr ''$6.40'')
     \<and> d ''total'' = Some (PyStr ''$86.38'')
     \<and> d ''items'' = Some (PyList [PyStr ''Widget'', PyStr ''Gadget''])"
proof -
  have s1: "calculate_total Sequential [widget, gadget]
      = PFloat (Double False 1029 1124492531959071)"
    by code_simp
  have s2: "calculate_total Compensated [widget, gadget]
      = PFloat (Double False 1029 1124492531959071)"
    by code_simp
  have s: "calculate_total impl [widget, gadget] = PFloat (Double False 1029 1124492531959071)"
    using s1 s2 by (cases impl) simp_all
  have t: "fmul (Double False 1029 1124492531959071) (float_lit 8 100)
      = Double False 1025 2700358336571350"
    by code_simp
  have z: "fadd (Double False 1029 1124492531959071) (Double False 1025 2700358336571350)
      = Double False 1029 1574739904705436"
    by code_simp
  have fs: "format_currency (PFloat (Double False 1029 1124492531959071)) = Inr ''$79.98''"
    by code_simp
  have ft: "format_currency (PFloat (Double False 1025 2700358336571350)) = Inr ''$6.40''"
    by code_simp
  have fz: "format_currency (PFloat (Double False 1029 1574739904705436)) = Inr ''$86.38''"
    by code_simp
  have "process_order impl (alice now) [widget, gadget] =
      Inr [''user_id'' \<mapsto> PyInt 1, ''user_name'' \<mapsto> PyStr ''Alice'',
           ''subtotal'' \<mapsto> PyStr ''$79.98'', ''tax'' \<mapsto> PyStr ''$6.40'',
           ''total'' \<mapsto> PyStr ''$86.38'',
           ''items'' \<mapsto> PyList [PyStr ''Widget'', PyStr ''Gadget'']]"
    by (simp add: process_order_def s t z fs ft fz and_then_def alice_def)
       (simp add: widget_def gadget_def)
  then show ?thesis by simp
qed

end
